theory Spec2Isabelle
  imports Main "HOL-Library.Char_ord" "HOL-Library.List_Lexorder" "HOL-Library.Sublist"
begin

section \<open>Go's \<open>flag\<close> package, as far as the two handlers use it\<close>

text \<open>
  Both handlers of \<^verbatim>\<open>cmd/src/repos_add_kvp.go\<close> start with \<^verbatim>\<open>flagSet.Parse(args)\<close> on a
  flag set made with \<^verbatim>\<open>flag.ExitOnError\<close>. A \<^verbatim>\<open>*flag.Flag\<close> is a record: its name, whether
  its value is a boolean flag, what \<^verbatim>\<open>Value.Set\<close> does (\<open>None\<close>: it returns an error,
  \<open>Some v\<close>: it succeeds and \<^verbatim>\<open>Value.String()\<close> is \<open>v\<close> afterwards) and the current
  \<^verbatim>\<open>Value.String()\<close>.
\<close>

record Flag =
  Name :: string
  IsBoolFlag :: bool
  Value_Set :: "string \<Rightarrow> string option"
  Value_String :: string

text \<open>
  \<^verbatim>\<open>formal\<close> is Go's \<^verbatim>\<open>map[string]*Flag\<close> of the defined flags; every entry sits under its
  own \<^verbatim>\<open>Name\<close>, so the map is a list of flags looked up by name. \<^verbatim>\<open>actual\<close> holds the
  names of the flags that were set (Go stores the pointer to the same \<^verbatim>\<open>Flag\<close>, which is the
  entry of \<^verbatim>\<open>formal\<close>), \<^verbatim>\<open>args\<close> the arguments not consumed yet.
\<close>

record FlagSet =
  formal :: "Flag list"
  actual :: "string list"
  args :: "string list"

datatype flag_error = ErrHelp | failf string "string list"

datatype exit = os_Exit nat

definition lookup :: "FlagSet \<Rightarrow> string \<Rightarrow> Flag option" where
  "lookup f name = find (\<lambda>flag. Name flag = name) (formal f)"

text \<open>\<^verbatim>\<open>flagSet.String(name, value, usage)\<close>: a string flag, whose \<^verbatim>\<open>Set\<close> never fails.\<close>

definition stringFlag :: "string \<Rightarrow> string \<Rightarrow> Flag" where
  "stringFlag name val =
     \<lparr>Name = name, IsBoolFlag = False, Value_Set = Some, Value_String = val\<rparr>"

text \<open>The value a successful \<^verbatim>\<open>Value.Set\<close> leaves in the flag called \<open>name\<close>.\<close>

definition store :: "FlagSet \<Rightarrow> string \<Rightarrow> string \<Rightarrow> FlagSet" where
  "store f name v =
     f\<lparr>formal := map (\<lambda>flag. if Name flag = name then flag\<lparr>Value_String := v\<rparr> else flag)
                     (formal f)\<rparr>"

text \<open>\<^verbatim>\<open>f.actual[name] = flag\<close>\<close>

definition setActual :: "FlagSet \<Rightarrow> string \<Rightarrow> FlagSet" where
  "setActual f name = f\<lparr>actual := List.insert name (actual f)\<rparr>"

text \<open>
  The loop of \<^verbatim>\<open>parseOne\<close> that looks for the first \<^verbatim>\<open>=\<close> from index 1 on
  (``equals cannot be first''): the name, \<^verbatim>\<open>hasValue\<close> and the value.
\<close>

definition splitEquals :: "string \<Rightarrow> string \<times> bool \<times> string" where
  "splitEquals name =
     (let i = Suc (length (takeWhile (\<lambda>c. c \<noteq> CHR ''='') (tl name)))
      in if i < length name then (take i name, True, drop (Suc i) name)
         else (name, False, []))"

definition parseOne :: "FlagSet \<Rightarrow> bool \<times> flag_error option \<times> FlagSet" where
  "parseOne f =
     (case args f of
        [] \<Rightarrow> (False, None, f)
      | s # rest \<Rightarrow>
          if length s < 2 \<or> s ! 0 \<noteq> CHR ''-'' then (False, None, f)
          else if s ! 1 = CHR ''-'' \<and> length s = 2 then (False, None, f\<lparr>args := rest\<rparr>)
          else
            let numMinuses = (if s ! 1 = CHR ''-'' then 2 else 1);
                name = drop numMinuses s
            in if length name = 0 \<or> name ! 0 = CHR ''-'' \<or> name ! 0 = CHR ''=''
               then (False, Some (failf ''bad flag syntax: %s'' [s]), f)
               else
                 let f = f\<lparr>args := rest\<rparr>;
                     (name, hasValue, val) = splitEquals name
                 in (case lookup f name of
                      None \<Rightarrow>
                        if name = ''help'' \<or> name = ''h'' then (False, Some ErrHelp, f)
                        else (False, Some (failf ''flag provided but not defined: -%s'' [name]), f)
                    | Some flag \<Rightarrow>
                        if IsBoolFlag flag then
                          (if hasValue then
                             (case Value_Set flag val of
                                None \<Rightarrow>
                                  (False,
                                   Some (failf ''invalid boolean value %q for -%s: %v'' [val, name]),
                                   f)
                              | Some v \<Rightarrow> (True, None, setActual (store f name v) name))
                           else
                             (case Value_Set flag ''true'' of
                                None \<Rightarrow>
                                  (False, Some (failf ''invalid boolean flag %s: %v'' [name]), f)
                              | Some v \<Rightarrow> (True, None, setActual (store f name v) name)))
                        else
                          let (hasValue, val, f) =
                                (if \<not> hasValue \<and> length (args f) > 0
                                 then (True, hd (args f), f\<lparr>args := tl (args f)\<rparr>)
                                 else (hasValue, val, f))
                          in if \<not> hasValue
                             then (False, Some (failf ''flag needs an argument: -%s'' [name]), f)
                             else
                               (case Value_Set flag val of
                                  None \<Rightarrow>
                                    (False,
                                     Some (failf ''invalid value %q for flag -%s: %v'' [val, name]),
                                     f)
                                | Some v \<Rightarrow> (True, None, setActual (store f name v) name))))"

text \<open>
  \<^verbatim>\<open>Parse\<close> with \<^verbatim>\<open>ExitOnError\<close>: it calls \<^verbatim>\<open>parseOne\<close> while a flag was seen, returns
  \<^verbatim>\<open>nil\<close> when the flags are over, and on an error ends the process, with status 0 for
  \<^verbatim>\<open>ErrHelp\<close> and 2 otherwise. It never returns an error.
\<close>

function Parse_loop :: "FlagSet \<Rightarrow> exit + FlagSet" where
  "Parse_loop f =
     (let (seen, err, f') = parseOne f
      in if seen then Parse_loop f'
         else if err = None then Inr f'
         else if err = Some ErrHelp then Inl (os_Exit 0)
         else Inl (os_Exit 2))"
  by pat_completeness auto
termination
proof (relation "measure (\<lambda>f. length (args f))")
  show "wf (measure (\<lambda>f. length (args f)))"
    by simp
next
  fix f :: FlagSet and x seen y err f'
  assume "x = parseOne f" and "(seen, y) = x" and "(err, f') = y" and seen
  then have "parseOne f = (True, err, f')"
    by simp
  then have "length (args f') < length (args f)"
    by (auto simp: parseOne_def store_def setActual_def Let_def
             split: list.splits if_splits option.splits prod.splits)
  then show "(f', f) \<in> measure (\<lambda>f. length (args f))"
    by simp
qed

declare Parse_loop.simps [simp del]

definition Parse :: "FlagSet \<Rightarrow> string list \<Rightarrow> exit + FlagSet" where
  "Parse f arguments = Parse_loop (f\<lparr>args := arguments\<rparr>)"

text \<open>
  \<^verbatim>\<open>Visit\<close> calls \<^verbatim>\<open>fn\<close> on the flags that were set, in lexicographical order of their
  names. The variables the callback assigns are a state \<open>'s\<close> passed along.
\<close>

definition sortFlags :: "FlagSet \<Rightarrow> Flag list" where
  "sortFlags f = List.map_filter (lookup f) (sort (actual f))"

definition Visit :: "FlagSet \<Rightarrow> (Flag \<Rightarrow> 's \<Rightarrow> 's) \<Rightarrow> 's \<Rightarrow> 's" where
  "Visit f fn = fold fn (sortFlags f)"

text \<open>
  \<^verbatim>\<open>*p\<close> for the pointer \<open>p\<close> that \<^verbatim>\<open>flagSet.String(name, ...)\<close> returned: the string
  variable behind the flag, which is what its \<^verbatim>\<open>Value.String()\<close> reads. The handlers
  dereference pointers of flags they defined themselves only, so the flag is found.
\<close>

definition deref :: "FlagSet \<Rightarrow> string \<Rightarrow> string" where
  "deref f name = (case lookup f name of Some flag \<Rightarrow> Value_String flag | None \<Rightarrow> [])"

section \<open>Errors, results and effects of a handler\<close>

text \<open>
  The constructors of \<^verbatim>\<open>sourcegraph/lib/errors\<close> the file uses, with the format string and
  its arguments kept apart, and \<open>external\<close> for an error that comes from outside (the
  transport, the file system, the YAML decoder).
\<close>

datatype error =
    errors_New string
  | errors_Newf string "string list"
  | errors_Wrap error string
  | errors_Wrapf error string "string list"
  | external string

text \<open>A handler returns an error or \<^verbatim>\<open>nil\<close>, unless flag parsing ended the process.\<close>

datatype result = Exited nat | Returned "error option"

text \<open>
  The values stored in the \<^verbatim>\<open>map[string]interface{}\<close> of request variables are a
  \<^verbatim>\<open>string\<close> or a \<^verbatim>\<open>*string\<close> (\<open>None\<close> is the nil pointer). \<^verbatim>\<open>encoding/json\<close> writes a
  nil pointer as \<^verbatim>\<open>null\<close> and any other pointer as the value it points to. A Go string
  is a sequence of bytes, a JSON string one of Unicode characters: the encoder goes through
  the bytes with \<^verbatim>\<open>utf8.DecodeRuneInString\<close> and writes U+FFFD for every byte that starts
  no well-formed UTF-8 encoding.
\<close>

datatype go_value = go_string string | go_string_ptr "string option"

text \<open>
  \<^verbatim>\<open>utf8.DecodeRuneInString\<close>, as far as the encoder looks at it: the size of the encoding
  at the head of the string, or \<open>None\<close> for the answer \<^verbatim>\<open>(RuneError, 1)\<close>. The first byte
  fixes the size and the range accepted for the second byte.
\<close>

definition DecodeRuneInString :: "string \<Rightarrow> nat option" where
  "DecodeRuneInString s =
     (case s of
        [] \<Rightarrow> None
      | c0 # cs \<Rightarrow>
          let n = length s; s0 = (of_char c0 :: nat)
          in if s0 < 0x80 then Some 1
             else if s0 < 0xC2 \<or> 0xF4 < s0 then None
             else
               let sz = (if s0 < 0xE0 then 2 else if s0 < 0xF0 then 3 else 4 :: nat);
                   lo = (if s0 = 0xE0 then 0xA0 else if s0 = 0xF0 then 0x90 else 0x80 :: nat);
                   hi = (if s0 = 0xED then 0x9F else if s0 = 0xF4 then 0x8F else 0xBF :: nat)
               in if n < sz then None
                  else if (of_char (s ! 1) :: nat) < lo \<or> hi < (of_char (s ! 1) :: nat) then None
                  else if sz \<le> 2 then Some 2
                  else if (of_char (s ! 2) :: nat) < 0x80 \<or> 0xBF < (of_char (s ! 2) :: nat)
                  then None
                  else if sz \<le> 3 then Some 3
                  else if (of_char (s ! 3) :: nat) < 0x80 \<or> 0xBF < (of_char (s ! 3) :: nat)
                  then None
                  else Some 4)"

text \<open>U+FFFD in UTF-8.\<close>

definition RuneError_utf8 :: string where
  "RuneError_utf8 = [CHR 0xEF, CHR 0xBF, CHR 0xBD]"

text \<open>
  The characters of the JSON string that the encoder writes for a Go string, in UTF-8 (the
  escapes it uses in the text stand for the same characters).
\<close>

function json_string :: "string \<Rightarrow> string" where
  "json_string [] = []"
| "json_string (b # rest) =
     (if (of_char b :: nat) < 0x80 then b # json_string rest
      else
        (case DecodeRuneInString (take 4 (b # rest)) of
           None \<Rightarrow> RuneError_utf8 @ json_string rest
         | Some sz \<Rightarrow> take sz (b # rest) @ json_string (drop sz (b # rest))))"
  by pat_completeness auto
termination
proof (relation "measure length")
  show "wf (measure length)"
    by simp
next
  fix b :: char and rest :: string
  show "(rest, b # rest) \<in> measure length"
    by simp
  show "(rest, b # rest) \<in> measure length"
    by simp
next
  fix b :: char and rest :: string and sz :: nat
  assume "DecodeRuneInString (take 4 (b # rest)) = Some sz"
  then have "0 < sz"
    by (auto simp: DecodeRuneInString_def Let_def split: if_splits)
  then show "(drop sz (b # rest), b # rest) \<in> measure length"
    by simp
qed

datatype json = JSON_null | JSON_string string

fun marshal :: "go_value \<Rightarrow> json" where
  "marshal (go_string s) = JSON_string (json_string s)"
| "marshal (go_string_ptr None) = JSON_null"
| "marshal (go_string_ptr (Some s)) = JSON_string (json_string s)"

record Request =
  query :: string
  vars :: "string \<rightharpoonup> go_value"

definition payload :: "Request \<Rightarrow> string \<rightharpoonup> json" where
  "payload req name = map_option marshal (vars req name)"

datatype emoji = EmojiInfo | EmojiSuccess

datatype style = StyleSuggestion

datatype FancyLine =
    output_Emojif emoji string "string list"
  | output_Emoji emoji string
  | output_Styledf style string "string list"

text \<open>What a handler does to the outside, in the order it does it.\<close>

datatype effect =
    Do_request Request
  | Printf string
  | WriteLine FancyLine
  | Open_file string
  | Decode_file string
  | Make_dir string
  | Block FancyLine
  | Block_Write string
  | Block_Close

record outcome =
  result :: result
  effects :: "effect list"

section \<open>\<^verbatim>\<open>src repos add-kvp\<close>\<close>

text \<open>
  \<^verbatim>\<open>api.NewFlags(flagSet)\<close> is not part of the file: the flags it adds to the flag set are
  the parameter \<open>apiFlags\<close>. (Go panics at \<^verbatim>\<open>init\<close> when a flag is defined twice, so their
  names differ from \<^verbatim>\<open>repo\<close>, \<^verbatim>\<open>key\<close> and \<^verbatim>\<open>value\<close> in every run; the lookup takes the
  first entry of a name.)
\<close>

definition addKVP_flagSet :: "Flag list \<Rightarrow> FlagSet" where
  "addKVP_flagSet apiFlags =
     \<lparr>formal = [stringFlag ''repo'' [], stringFlag ''key'' [], stringFlag ''value'' []] @ apiFlags,
      actual = [], args = []\<rparr>"

definition newline :: string where
  "newline = [CHR 0x0A]"

definition addKVP_query :: string where
  "addKVP_query =
     ''mutation addKVP('' @ newline @
     ''  $repo: ID!,'' @ newline @
     ''  $key: String!,'' @ newline @
     ''  $value: String,'' @ newline @
     '') {'' @ newline @
     ''  addRepoKeyValuePair('' @ newline @
     ''    repo: $repo,'' @ newline @
     ''    key: $key,'' @ newline @
     ''    value: $value,'' @ newline @
     ''  ) {'' @ newline @
     ''    alwaysNil'' @ newline @
     ''  }'' @ newline @
     ''}''"

text \<open>
  The callback given to \<^verbatim>\<open>Visit\<close>; the state is the pair of the pointers \<^verbatim>\<open>keyFlag\<close> and
  \<^verbatim>\<open>valueFlag\<close>, both set to nil before the visit.
\<close>

definition visit_fn :: "Flag \<Rightarrow> string option \<times> string option \<Rightarrow> string option \<times> string option" where
  "visit_fn f = (\<lambda>(keyFlag, valueFlag).
     let keyFlag = (if Name f = ''key'' then Some (Value_String f) else keyFlag);
         valueFlag = (if Name f = ''value'' then Some (Value_String f) else valueFlag)
     in (keyFlag, valueFlag))"

text \<open>
  The request that \<^verbatim>\<open>client.NewRequest\<close> gets: the query and the map of its variables.
\<close>

definition addKVP_request :: "string \<Rightarrow> string \<Rightarrow> string option \<Rightarrow> Request" where
  "addKVP_request repo key valueFlag =
     \<lparr>query = addKVP_query,
      vars = [''repo'' \<mapsto> go_string repo,
              ''key'' \<mapsto> go_string key,
              ''value'' \<mapsto> go_string_ptr valueFlag]\<rparr>"

text \<open>
  The handler. \<open>Do\<close> is \<^verbatim>\<open>client.NewRequest(query, vars).Do(ctx, nil)\<close> of the client that
  \<^verbatim>\<open>cfg.apiClient\<close> builds: the pair \<^verbatim>\<open>(ok, err)\<close> it returns for a request.
\<close>

definition addKVP_handler ::
  "Flag list \<Rightarrow> (Request \<Rightarrow> bool \<times> error option) \<Rightarrow> string list \<Rightarrow> outcome" where
  "addKVP_handler apiFlags Do arguments =
     (case Parse (addKVP_flagSet apiFlags) arguments of
        Inl (os_Exit code) \<Rightarrow> \<lparr>result = Exited code, effects = []\<rparr>
      | Inr flagSet \<Rightarrow>
          if deref flagSet ''repo'' = []
          then \<lparr>result = Returned (Some (errors_New ''error: repo is required'')), effects = []\<rparr>
          else
            let (keyFlag, valueFlag) = Visit flagSet visit_fn (None, None)
            in (case keyFlag of
                  None \<Rightarrow>
                    \<lparr>result = Returned (Some (errors_New ''error: key is required'')),
                     effects = []\<rparr>
                | Some key \<Rightarrow>
                    let req = addKVP_request (deref flagSet ''repo'') key valueFlag;
                        (ok, err) = Do req
                    in if err \<noteq> None \<or> \<not> ok
                       then \<lparr>result = Returned err, effects = [Do_request req]\<rparr>
                       else
                         (case valueFlag of
                            Some val \<Rightarrow>
                              \<lparr>result = Returned None,
                               effects = [Do_request req,
                                 Printf (''Key-value pair '' @ [CHR 0x27] @ key @ '':'' @ val @
                                         [CHR 0x27] @ '' created.'' @ newline)]\<rparr>
                          | None \<Rightarrow>
                              \<lparr>result = Returned None,
                               effects = [Do_request req,
                                 Printf (''Key-value pair '' @ [CHR 0x27] @ key @ '':<nil>'' @
                                         [CHR 0x27] @ '' created.'' @ newline)]\<rparr>)))"

section \<open>\<^verbatim>\<open>src snapshot databases\<close>\<close>

record pgdump_Target =
  Target :: string
  DBName :: string
  Username :: string
  Password :: string

record pgdump_Targets =
  Primary :: pgdump_Target
  CodeIntel :: pgdump_Target
  CodeInsights :: pgdump_Target

type_synonym CommandBuilder = "pgdump_Target \<Rightarrow> error + string"

text \<open>
  What the handler takes from outside the file: the package \<^verbatim>\<open>internal/pgdump\<close>
  (\<^verbatim>\<open>pgdump.Command\<close>, \<^verbatim>\<open>pgdump.BuildCommands\<close>) and the constant \<^verbatim>\<open>srcSnapshotDir\<close>, which
  belong to the repository but not to the file, and the calls \<^verbatim>\<open>os.Open\<close> (the file it
  opens, or an error), \<^verbatim>\<open>yaml.NewDecoder(f).Decode\<close> (the targets it reads from that file,
  or an error) and \<^verbatim>\<open>os.MkdirAll\<close> (an error, or nil).
\<close>

record environment =
  pgdump_Command :: "pgdump_Target \<Rightarrow> string"
  pgdump_BuildCommands :: "string \<Rightarrow> CommandBuilder \<Rightarrow> pgdump_Targets \<Rightarrow> error + string list"
  srcSnapshotDir :: string
  os_Open :: "string \<Rightarrow> error + string"
  yaml_Decode :: "string \<Rightarrow> error + pgdump_Targets"
  os_MkdirAll :: "string \<Rightarrow> error option"

definition predefinedDatabaseDumpTargets :: "string \<rightharpoonup> pgdump_Targets" where
  "predefinedDatabaseDumpTargets =
     [''local'' \<mapsto>
        \<lparr>Primary = \<lparr>Target = [], DBName = ''sg'', Username = ''sg'', Password = ''sg''\<rparr>,
         CodeIntel = \<lparr>Target = [], DBName = ''sg'', Username = ''sg'', Password = ''sg''\<rparr>,
         CodeInsights = \<lparr>Target = [], DBName = ''postgres'', Username = ''postgres'',
                         Password = ''password''\<rparr>\<rparr>,
      ''docker'' \<mapsto>
        \<lparr>Primary = \<lparr>Target = ''pgsql'', DBName = ''sg'', Username = ''sg'', Password = ''sg''\<rparr>,
         CodeIntel = \<lparr>Target = ''codeintel-db'', DBName = ''sg'', Username = ''sg'',
                      Password = ''sg''\<rparr>,
         CodeInsights = \<lparr>Target = ''codeinsights-db'', DBName = ''postgres'',
                         Username = ''postgres'', Password = ''password''\<rparr>\<rparr>,
      ''k8s'' \<mapsto>
        \<lparr>Primary = \<lparr>Target = ''statefulset/pgsql'', DBName = ''sg'', Username = ''sg'',
                    Password = ''sg''\<rparr>,
         CodeIntel = \<lparr>Target = ''statefulset/codeintel-db'', DBName = ''sg'', Username = ''sg'',
                      Password = ''sg''\<rparr>,
         CodeInsights = \<lparr>Target = ''statefulset/codeinsights-db'', DBName = ''postgres'',
                         Username = ''postgres'', Password = ''password''\<rparr>\<rparr>]"

definition databases_flagSet :: FlagSet where
  "databases_flagSet = \<lparr>formal = [stringFlag ''targets'' ''auto''], actual = [], args = []\<rparr>"

text \<open>The three closures of the \<^verbatim>\<open>switch\<close>, over \<^verbatim>\<open>pgdump.Command\<close>.\<close>

definition commandBuilder_pg_dump :: "(pgdump_Target \<Rightarrow> string) \<Rightarrow> CommandBuilder" where
  "commandBuilder_pg_dump Command t =
     (let cmd = Command t
      in if Target t \<noteq> [] then Inr (cmd @ '' --host='' @ Target t) else Inr cmd)"

definition commandBuilder_docker :: "(pgdump_Target \<Rightarrow> string) \<Rightarrow> CommandBuilder" where
  "commandBuilder_docker Command t =
     Inr (''docker exec -it '' @ Target t @ '' sh -c '' @ [CHR 0x27] @ Command t @ [CHR 0x27])"

definition commandBuilder_kubectl :: "(pgdump_Target \<Rightarrow> string) \<Rightarrow> CommandBuilder" where
  "commandBuilder_kubectl Command t =
     Inr (''kubectl exec -it '' @ Target t @ '' -- bash -c '' @ [CHR 0x27] @ Command t @
          [CHR 0x27])"

text \<open>
  The \<^verbatim>\<open>switch builder\<close> with the assignment \<^verbatim>\<open>targetKey := "docker"\<close> before it: the target
  key and the command builder it leaves, or the error of the \<^verbatim>\<open>default\<close> case.
\<close>

definition builder_switch ::
  "(pgdump_Target \<Rightarrow> string) \<Rightarrow> string \<Rightarrow> error + string \<times> CommandBuilder" where
  "builder_switch Command builder =
     (let targetKey = ''docker''
      in if builder = ''pg_dump'' \<or> builder = [] then Inr (''local'', commandBuilder_pg_dump Command)
         else if builder = ''docker'' then Inr (targetKey, commandBuilder_docker Command)
         else if builder = ''kubectl'' then Inr (''k8s'', commandBuilder_kubectl Command)
         else Inl (errors_Newf ''unknown or invalid template type %q'' [builder]))"

text \<open>
  The lookup of the targets: predefined ones, or a targets file. The effects come with the
  error or the targets.
\<close>

definition load_targets :: "environment \<Rightarrow> string \<Rightarrow> effect list \<times> (error + pgdump_Targets)" where
  "load_targets env targetKey =
     (case predefinedDatabaseDumpTargets targetKey of
        None \<Rightarrow>
          (let line = WriteLine (output_Emojif EmojiInfo
                        ''Using targets defined in targets file %q'' [targetKey])
           in case os_Open env targetKey of
                Inl err \<Rightarrow>
                  ([line, Open_file targetKey],
                   Inl (errors_Wrapf err ''invalid targets file %q'' [targetKey]))
              | Inr f \<Rightarrow>
                  (case yaml_Decode env f of
                     Inl err \<Rightarrow>
                       ([line, Open_file targetKey, Decode_file f],
                        Inl (errors_Wrapf err ''invalid targets file %q'' [targetKey]))
                   | Inr targets \<Rightarrow> ([line, Open_file targetKey, Decode_file f], Inr targets)))
      | Some targets \<Rightarrow>
          ([WriteLine (output_Emojif EmojiInfo
              ''Using predefined targets for %s environments'' [targetKey])],
           Inr targets))"

fun strings_Join :: "string list \<Rightarrow> string \<Rightarrow> string" where
  "strings_Join [] sep = []"
| "strings_Join [x] sep = x"
| "strings_Join (x # y # ys) sep = x @ sep @ strings_Join (y # ys) sep"

text \<open>
  The handler, in two parts: up to the choice of the target key, and from the lookup of
  the targets to the end. The result of \<^verbatim>\<open>os.MkdirAll\<close> is assigned to the blank
  identifier.
\<close>

definition dump_commands :: "environment \<Rightarrow> CommandBuilder \<Rightarrow> string \<Rightarrow> outcome" where
  "dump_commands env commandBuilder targetKey =
     (let (loading, loaded) = load_targets env targetKey
      in case loaded of
           Inl err \<Rightarrow> \<lparr>result = Returned (Some err), effects = loading\<rparr>
         | Inr targets \<Rightarrow>
             (case pgdump_BuildCommands env (srcSnapshotDir env) commandBuilder targets of
                Inl err \<Rightarrow>
                  \<lparr>result = Returned (Some (errors_Wrap err ''failed to build commands'')),
                   effects = loading\<rparr>
              | Inr commands \<Rightarrow>
                  let blank = os_MkdirAll env (srcSnapshotDir env)
                  in \<lparr>result = Returned None,
                      effects = loading @
                        [Make_dir (srcSnapshotDir env),
                         Block (output_Emoji EmojiSuccess
                           ''Run these commands to generate the required database dumps:''),
                         Block_Write (newline @ strings_Join commands newline),
                         Block_Close,
                         WriteLine (output_Styledf StyleSuggestion
                           ''Note that you may need to do some additional setup, such as authentication, beforehand.''
                           [])]\<rparr>))"

definition databases_handler :: "environment \<Rightarrow> string list \<Rightarrow> outcome" where
  "databases_handler env arguments =
     (case Parse databases_flagSet arguments of
        Inl (os_Exit code) \<Rightarrow> \<lparr>result = Exited code, effects = []\<rparr>
      | Inr flagSet \<Rightarrow>
          let builder = (if length arguments > 0 then arguments ! 0 else [])
          in (case builder_switch (pgdump_Command env) builder of
                Inl err \<Rightarrow> \<lparr>result = Returned (Some err), effects = []\<rparr>
              | Inr (targetKey, commandBuilder) \<Rightarrow>
                  let targetKey = (if deref flagSet ''targets'' \<noteq> ''auto''
                                   then deref flagSet ''targets'' else targetKey)
                  in dump_commands env commandBuilder targetKey))"

section \<open>What an outcome shows\<close>

text \<open>The requests a handler sent and the texts it printed, in order.\<close>

fun sent :: "effect list \<Rightarrow> Request list" where
  "sent [] = []"
| "sent (Do_request req # es) = req # sent es"
| "sent (e # es) = sent es"

fun printed :: "effect list \<Rightarrow> string list" where
  "printed [] = []"
| "printed (Printf text # es) = text # printed es"
| "printed (e # es) = printed es"

text \<open>The calls to the file system among the effects.\<close>

fun file_io :: "effect list \<Rightarrow> effect list" where
  "file_io [] = []"
| "file_io (Open_file path # es) = Open_file path # file_io es"
| "file_io (Decode_file f # es) = Decode_file f # file_io es"
| "file_io (Make_dir dir # es) = Make_dir dir # file_io es"
| "file_io (e # es) = file_io es"

text \<open>
  What the requests sent hold for the variable \<open>name\<close>: the Go values given to
  \<^verbatim>\<open>NewRequest\<close>, and the JSON values they are on the wire.
\<close>

definition variables :: "string \<Rightarrow> effect list \<Rightarrow> go_value option list" where
  "variables name es = map (\<lambda>req. vars req name) (sent es)"

definition payloads :: "string \<Rightarrow> effect list \<Rightarrow> json option list" where
  "payloads name es = map (\<lambda>req. payload req name) (sent es)"

text \<open>The target key that the \<^verbatim>\<open>switch\<close> leaves for a style.\<close>

definition target_key :: "(pgdump_Target \<Rightarrow> string) \<Rightarrow> string \<Rightarrow> string option" where
  "target_key Command builder =
     (case builder_switch Command builder of
        Inl err \<Rightarrow> None
      | Inr (targetKey, commandBuilder) \<Rightarrow> Some targetKey)"

text \<open>
  The text that the command builder of a style renders for a target: the closure that the
  \<^verbatim>\<open>switch\<close> selects for the style, applied to the target.
\<close>

definition rendered :: "(pgdump_Target \<Rightarrow> string) \<Rightarrow> string \<Rightarrow> pgdump_Target \<Rightarrow> string option" where
  "rendered Command builder t =
     (case builder_switch Command builder of
        Inl err \<Rightarrow> None
      | Inr (targetKey, commandBuilder) \<Rightarrow>
          (case commandBuilder t of Inl err \<Rightarrow> None | Inr text \<Rightarrow> Some text))"

section \<open>The part of \<^verbatim>\<open>internal/pgdump\<close> the spec describes\<close>

text \<open>
  Modelled from the spec: \<^verbatim>\<open>pgdump.Command\<close> (package \<^verbatim>\<open>internal/pgdump\<close>, which the file
  imports) is missing. The spec describes its text as a \<^verbatim>\<open>pg_dump\<close> invocation that embeds
  the database name, the username and the password as connection parameters, and writes them
  \<^verbatim>\<open>dbname=sg\<close>, \<^verbatim>\<open>user=sg\<close>, \<^verbatim>\<open>password=sg\<close> in its example. The model is that invocation:
  the program and the three parameters, each as \<^verbatim>\<open>name=value\<close>, in the spec's order.
\<close>

definition pgdump_Command_spec :: "pgdump_Target \<Rightarrow> string" where
  "pgdump_Command_spec t =
     ''pg_dump dbname='' @ DBName t @ '' user='' @ Username t @ '' password='' @ Password t"

text \<open>
  Modelled from the spec: what it is for a text to embed the three values as connection
  parameters. A value is embedded as the parameter \<open>name\<close> when \<^verbatim>\<open>name=value\<close> stands in the
  text; the bare value somewhere in the text is not enough.
\<close>

definition has_parameter :: "string \<Rightarrow> string \<Rightarrow> string \<Rightarrow> bool" where
  "has_parameter name val text \<longleftrightarrow> sublist (name @ ''='' @ val) text"

definition connection_parameters :: "pgdump_Target \<Rightarrow> string \<Rightarrow> bool" where
  "connection_parameters t text \<longleftrightarrow>
     has_parameter ''dbname'' (DBName t) text \<and>
     has_parameter ''user'' (Username t) text \<and>
     has_parameter ''password'' (Password t) text"

text \<open>
  Modelled from the spec: \<^verbatim>\<open>pgdump.BuildCommands\<close> is missing as well. The spec has it
  render one command per logical database with the selected command builder, in the order
  primary, code-intelligence, code-insights. The handlers' theorems hold for every
  \<^verbatim>\<open>BuildCommands\<close>; this one serves in the examples.
\<close>

definition BuildCommands_spec :: "string \<Rightarrow> CommandBuilder \<Rightarrow> pgdump_Targets \<Rightarrow> error + string list" where
  "BuildCommands_spec outDir commandBuilder targets =
     (case commandBuilder (Primary targets) of
        Inl err \<Rightarrow> Inl err
      | Inr c1 \<Rightarrow>
          (case commandBuilder (CodeIntel targets) of
             Inl err \<Rightarrow> Inl err
           | Inr c2 \<Rightarrow>
               (case commandBuilder (CodeInsights targets) of
                  Inl err \<Rightarrow> Inl err
                | Inr c3 \<Rightarrow> Inr [c1, c2, c3])))"

section \<open>An environment for the examples\<close>

text \<open>
  The package \<^verbatim>\<open>internal/pgdump\<close> as modelled from the spec, a transport that accepts every
  request, and a file system without targets files in which \<^verbatim>\<open>os.MkdirAll\<close> returns
  \<open>mkdir\<close>.
\<close>

definition Do_ok :: "Request \<Rightarrow> bool \<times> error option" where
  "Do_ok req = (True, None)"

definition example_environment :: "error option \<Rightarrow> environment" where
  "example_environment mkdir =
     \<lparr>pgdump_Command = pgdump_Command_spec,
      pgdump_BuildCommands = BuildCommands_spec,
      srcSnapshotDir = ''src-snapshot'',
      os_Open = (\<lambda>path. Inl (external ''no such file or directory'')),
      yaml_Decode = (\<lambda>f. Inl (external ''EOF'')),
      os_MkdirAll = (\<lambda>dir. mkdir)\<rparr>"

section \<open>Flag parsing: what \<^verbatim>\<open>Parse\<close> keeps\<close>

lemma lookup_Name: "lookup f n = Some flag \<Longrightarrow> Name flag = n"
  by (auto simp: lookup_def find_Some_iff)

lemma lookup_store:
  "lookup (store f name v) n =
     map_option (\<lambda>flag. if Name flag = name then flag\<lparr>Value_String := v\<rparr> else flag) (lookup f n)"
proof -
  have "find (\<lambda>flag. Name flag = n)
          (map (\<lambda>flag. if Name flag = name then flag\<lparr>Value_String := v\<rparr> else flag) xs)
        = map_option (\<lambda>flag. if Name flag = name then flag\<lparr>Value_String := v\<rparr> else flag)
            (find (\<lambda>flag. Name flag = n) xs)" for xs
    by (induction xs) auto
  then show ?thesis
    by (simp add: lookup_def store_def)
qed

lemma deref_store:
  "deref (store f name v) n = (if n = name \<and> lookup f n \<noteq> None then v else deref f n)"
proof (cases "lookup f n")
  case None
  then show ?thesis by (simp add: deref_def lookup_store)
next
  case (Some flag)
  then have "Name flag = n" by (rule lookup_Name)
  with Some show ?thesis by (simp add: deref_def lookup_store)
qed

lemma deref_args [simp]: "deref (f\<lparr>args := a\<rparr>) n = deref f n"
  by (simp add: deref_def lookup_def)

lemma lookup_args [simp]: "lookup (f\<lparr>args := a\<rparr>) n = lookup f n"
  by (simp add: lookup_def)

lemma deref_setActual [simp]: "deref (setActual f name) n = deref f n"
  by (simp add: deref_def lookup_def setActual_def)

lemma names_setActual_store [simp]:
  "map Name (formal (setActual (store f name v) name)) = map Name (formal f)"
  by (simp add: store_def setActual_def comp_def)

lemma actual_setActual_store [simp]:
  "set (actual (setActual (store f name v) name)) = insert name (set (actual f))"
  by (simp add: store_def setActual_def)

lemma parseOne_step:
  assumes "parseOne f = (seen, e, f')"
  shows "map Name (formal f') = map Name (formal f) \<and>
         (n \<notin> set (actual f') \<longrightarrow> deref f' n = deref f n \<and> n \<notin> set (actual f))"
  using assms unfolding parseOne_def Let_def
  by (auto split: list.splits if_splits option.splits prod.splits simp: deref_store)


lemma Parse_loop_inv:
  "Parse_loop f = Inr f' \<Longrightarrow>
     map Name (formal f') = map Name (formal f) \<and>
     (n \<notin> set (actual f') \<longrightarrow> deref f' n = deref f n \<and> n \<notin> set (actual f))"
proof (induction f rule: Parse_loop.induct)
  case (1 f)
  obtain seen e g where p: "parseOne f = (seen, e, g)"
    by (cases "parseOne f") auto
  note step = parseOne_step[OF p, of n]
  show ?case
  proof (cases seen)
    case True
    with p "1.prems" have "Parse_loop g = Inr f'"
      by (simp add: Parse_loop.simps[of f])
    with "1.IH"[OF p[symmetric] refl refl] True
    have "map Name (formal f') = map Name (formal g) \<and>
          (n \<notin> set (actual f') \<longrightarrow> deref f' n = deref g n \<and> n \<notin> set (actual g))"
      by simp
    with step show ?thesis by simp
  next
    case False
    with p "1.prems" have "g = f'"
      by (simp add: Parse_loop.simps[of f] split: if_splits)
    with step show ?thesis by simp
  qed
qed

lemma lookup_defined: "lookup f n \<noteq> None \<longleftrightarrow> n \<in> set (map Name (formal f))"
  by (auto simp: lookup_def find_None_iff)

lemma Parse_lookup:
  assumes "Parse f0 arguments = Inr f"
  shows "lookup f n \<noteq> None \<longleftrightarrow> lookup f0 n \<noteq> None"
proof -
  from assms have "map Name (formal f) = map Name (formal (f0\<lparr>args := arguments\<rparr>))"
    unfolding Parse_def by (rule Parse_loop_inv[THEN conjunct1])
  then show ?thesis
    unfolding lookup_defined by simp
qed

lemma Parse_unset:
  assumes "Parse f0 arguments = Inr f" and "n \<notin> set (actual f)"
  shows "deref f n = deref f0 n"
  using Parse_loop_inv[OF assms(1)[unfolded Parse_def], of n] assms(2) by simp

lemma fold_visit_fn:
  assumes "\<forall>fl \<in> set flags. Name fl = ''key'' \<longrightarrow> Value_String fl = kv"
      and "\<forall>fl \<in> set flags. Name fl = ''value'' \<longrightarrow> Value_String fl = vv"
  shows "fold visit_fn flags (k, v) =
           (if ''key'' \<in> Name ` set flags then Some kv else k,
            if ''value'' \<in> Name ` set flags then Some vv else v)"
  using assms
proof (induction flags arbitrary: k v)
  case Nil
  show ?case by simp
next
  case (Cons fl flags)
  have "visit_fn fl (k, v) =
          (if Name fl = ''key'' then Some kv else k, if Name fl = ''value'' then Some vv else v)"
    using Cons.prems unfolding visit_fn_def Let_def by simp
  moreover have "\<forall>fl \<in> set flags. Name fl = ''key'' \<longrightarrow> Value_String fl = kv"
    and "\<forall>fl \<in> set flags. Name fl = ''value'' \<longrightarrow> Value_String fl = vv"
    using Cons.prems by simp_all
  ultimately show ?case
    using Cons.IH by simp
qed

lemma set_sortFlags:
  "set (sortFlags f) = {fl. \<exists>n \<in> set (actual f). lookup f n = Some fl}"
  by (force simp: sortFlags_def List.map_filter_def)

lemma sortFlags_Value:
  assumes "fl \<in> set (sortFlags f)"
  shows "Value_String fl = deref f (Name fl)"
proof -
  from assms obtain n where "lookup f n = Some fl"
    by (auto simp: set_sortFlags)
  moreover from this have "Name fl = n" by (rule lookup_Name)
  ultimately show ?thesis by (simp add: deref_def)
qed

lemma sortFlags_Name:
  "n \<in> Name ` set (sortFlags f) \<longleftrightarrow> n \<in> set (actual f) \<and> lookup f n \<noteq> None"
proof
  assume "n \<in> Name ` set (sortFlags f)"
  then obtain fl m where "m \<in> set (actual f)" "lookup f m = Some fl" "Name fl = n"
    by (auto simp: set_sortFlags)
  moreover from this have "m = n" by (auto dest: lookup_Name)
  ultimately show "n \<in> set (actual f) \<and> lookup f n \<noteq> None" by simp
next
  assume "n \<in> set (actual f) \<and> lookup f n \<noteq> None"
  then obtain fl where "n \<in> set (actual f)" "lookup f n = Some fl" by auto
  moreover from this have "Name fl = n" by (auto dest: lookup_Name)
  ultimately have "fl \<in> set (sortFlags f)" and "n = Name fl"
    unfolding set_sortFlags by blast+
  then show "n \<in> Name ` set (sortFlags f)"
    by (rule image_eqI[rotated])
qed

lemma Visit_visit_fn:
  "Visit f visit_fn (None, None) =
     (if ''key'' \<in> set (actual f) \<and> lookup f ''key'' \<noteq> None then Some (deref f ''key'') else None,
      if ''value'' \<in> set (actual f) \<and> lookup f ''value'' \<noteq> None then Some (deref f ''value'')
      else None)"
proof -
  have k: "\<forall>fl \<in> set (sortFlags f). Name fl = ''key'' \<longrightarrow> Value_String fl = deref f ''key''"
  proof (intro ballI impI)
    fix fl assume "fl \<in> set (sortFlags f)" and n: "Name fl = ''key''"
    from sortFlags_Value[OF this(1)] show "Value_String fl = deref f ''key''"
      unfolding n .
  qed
  have v: "\<forall>fl \<in> set (sortFlags f). Name fl = ''value'' \<longrightarrow> Value_String fl = deref f ''value''"
  proof (intro ballI impI)
    fix fl assume "fl \<in> set (sortFlags f)" and n: "Name fl = ''value''"
    from sortFlags_Value[OF this(1)] show "Value_String fl = deref f ''value''"
      unfolding n .
  qed
  show ?thesis
    unfolding Visit_def fold_visit_fn[OF k v] sortFlags_Name ..
qed

section \<open>\<^verbatim>\<open>add-kvp\<close>: the handler after a successful \<^verbatim>\<open>Parse\<close>\<close>

lemma addKVP_lookup:
  assumes "Parse (addKVP_flagSet apiFlags) arguments = Inr flagSet"
  shows "lookup flagSet ''repo'' \<noteq> None" "lookup flagSet ''key'' \<noteq> None"
    "lookup flagSet ''value'' \<noteq> None"
  unfolding Parse_lookup[OF assms]
  by (simp_all add: lookup_def addKVP_flagSet_def stringFlag_def)

lemma addKVP_defaults:
  "deref (addKVP_flagSet apiFlags) ''repo'' = []"
  "deref (addKVP_flagSet apiFlags) ''key'' = []"
  "deref (addKVP_flagSet apiFlags) ''value'' = []"
  by (simp_all add: deref_def lookup_def addKVP_flagSet_def stringFlag_def)

lemma addKVP_handler_parsed:
  assumes "Parse (addKVP_flagSet apiFlags) arguments = Inr flagSet"
  shows "addKVP_handler apiFlags Do arguments =
     (if deref flagSet ''repo'' = []
      then \<lparr>result = Returned (Some (errors_New ''error: repo is required'')), effects = []\<rparr>
      else if ''key'' \<notin> set (actual flagSet)
      then \<lparr>result = Returned (Some (errors_New ''error: key is required'')), effects = []\<rparr>
      else
        let key = deref flagSet ''key'';
            valueFlag = (if ''value'' \<in> set (actual flagSet) then Some (deref flagSet ''value'')
                         else None);
            req = addKVP_request (deref flagSet ''repo'') key valueFlag
        in if snd (Do req) \<noteq> None \<or> \<not> fst (Do req)
           then \<lparr>result = Returned (snd (Do req)), effects = [Do_request req]\<rparr>
           else \<lparr>result = Returned None,
                 effects = [Do_request req,
                   Printf (''Key-value pair '' @ [CHR 0x27] @ key @ '':'' @
                           (case valueFlag of Some val \<Rightarrow> val | None \<Rightarrow> ''<nil>'') @
                           [CHR 0x27] @ '' created.'' @ newline)]\<rparr>)"
  using addKVP_lookup[OF assms]
  by (simp add: addKVP_handler_def assms Visit_visit_fn Let_def split: prod.splits)


text \<open>Command lines for the examples, and what \<^verbatim>\<open>Parse\<close> leaves of them.\<close>

lemma parsed_repo_key:
  "\<exists>flagSet. Parse (addKVP_flagSet []) [''-repo=r'', ''-key=k''] = Inr flagSet \<and>
     deref flagSet ''repo'' = ''r'' \<and> deref flagSet ''key'' = ''k'' \<and>
            ''key'' \<in> set (actual flagSet) \<and> ''value'' \<notin> set (actual flagSet)"
proof -
  have "case Parse (addKVP_flagSet []) [''-repo=r'', ''-key=k''] of
          Inl e \<Rightarrow> False
        | Inr flagSet \<Rightarrow>
            deref flagSet ''repo'' = ''r'' \<and> deref flagSet ''key'' = ''k'' \<and>
            ''key'' \<in> set (actual flagSet) \<and> ''value'' \<notin> set (actual flagSet)"
    by code_simp
  then show ?thesis
    by (cases "Parse (addKVP_flagSet []) [''-repo=r'', ''-key=k'']") auto
qed

lemma parsed_repo_key_empty_value:
  "\<exists>flagSet. Parse (addKVP_flagSet []) [''-repo=r'', ''-key=k'', ''-value=''] = Inr flagSet \<and>
     deref flagSet ''repo'' = ''r'' \<and> deref flagSet ''key'' = ''k'' \<and>
            ''key'' \<in> set (actual flagSet) \<and> ''value'' \<in> set (actual flagSet) \<and>
            deref flagSet ''value'' = []"
proof -
  have "case Parse (addKVP_flagSet []) [''-repo=r'', ''-key=k'', ''-value=''] of
          Inl e \<Rightarrow> False
        | Inr flagSet \<Rightarrow>
            deref flagSet ''repo'' = ''r'' \<and> deref flagSet ''key'' = ''k'' \<and>
            ''key'' \<in> set (actual flagSet) \<and> ''value'' \<in> set (actual flagSet) \<and>
            deref flagSet ''value'' = []"
    by code_simp
  then show ?thesis
    by (cases "Parse (addKVP_flagSet []) [''-repo=r'', ''-key=k'', ''-value='']") auto
qed

lemma parsed_repo_empty_key:
  "\<exists>flagSet. Parse (addKVP_flagSet []) [''-repo=r'', ''-key=''] = Inr flagSet \<and>
     deref flagSet ''repo'' = ''r'' \<and> deref flagSet ''key'' = [] \<and>
            ''key'' \<in> set (actual flagSet) \<and> ''value'' \<notin> set (actual flagSet)"
proof -
  have "case Parse (addKVP_flagSet []) [''-repo=r'', ''-key=''] of
          Inl e \<Rightarrow> False
        | Inr flagSet \<Rightarrow>
            deref flagSet ''repo'' = ''r'' \<and> deref flagSet ''key'' = [] \<and>
            ''key'' \<in> set (actual flagSet) \<and> ''value'' \<notin> set (actual flagSet)"
    by code_simp
  then show ?thesis
    by (cases "Parse (addKVP_flagSet []) [''-repo=r'', ''-key='']") auto
qed

lemma parsed_key_only:
  "\<exists>flagSet. Parse (addKVP_flagSet []) [''-key=k''] = Inr flagSet \<and>
     ''repo'' \<notin> set (actual flagSet) \<and> ''key'' \<in> set (actual flagSet)"
proof -
  have "case Parse (addKVP_flagSet []) [''-key=k''] of
          Inl e \<Rightarrow> False
        | Inr flagSet \<Rightarrow>
            ''repo'' \<notin> set (actual flagSet) \<and> ''key'' \<in> set (actual flagSet)"
    by code_simp
  then show ?thesis
    by (cases "Parse (addKVP_flagSet []) [''-key=k'']") auto
qed

lemma parsed_repo_only:
  "\<exists>flagSet. Parse (addKVP_flagSet []) [''-repo=r''] = Inr flagSet \<and>
     deref flagSet ''repo'' = ''r'' \<and> ''key'' \<notin> set (actual flagSet)"
proof -
  have "case Parse (addKVP_flagSet []) [''-repo=r''] of
          Inl e \<Rightarrow> False
        | Inr flagSet \<Rightarrow>
            deref flagSet ''repo'' = ''r'' \<and> ''key'' \<notin> set (actual flagSet)"
    by code_simp
  then show ?thesis
    by (cases "Parse (addKVP_flagSet []) [''-repo=r'']") auto
qed

section \<open>\<^verbatim>\<open>add-kvp\<close>: the claims\<close>

text \<open>
  C1. For every valid invocation (\<^verbatim>\<open>Parse\<close> returned, the repo is not empty, \<^verbatim>\<open>-key\<close> was
  passed), the request carries \<^verbatim>\<open>null\<close> for the variable \<^verbatim>\<open>value\<close> when \<^verbatim>\<open>-value\<close>
  was never passed, and a string when it was: the empty string for \<^verbatim>\<open>-value=\<close>, which is
  not \<^verbatim>\<open>null\<close>, and else the value that was passed, which the handler hands to the
  request unchanged and the encoder writes as a JSON string.
\<close>

theorem addKVP_value_payload:
  assumes "Parse (addKVP_flagSet apiFlags) arguments = Inr flagSet"
    and "deref flagSet ''repo'' \<noteq> []"
    and "''key'' \<in> set (actual flagSet)"
  shows "(''value'' \<notin> set (actual flagSet) \<longrightarrow>
            payloads ''value'' (effects (addKVP_handler apiFlags Do arguments)) = [Some JSON_null]) \<and>
         (''value'' \<in> set (actual flagSet) \<longrightarrow>
            variables ''value'' (effects (addKVP_handler apiFlags Do arguments)) =
              [Some (go_string_ptr (Some (deref flagSet ''value'')))] \<and>
            payloads ''value'' (effects (addKVP_handler apiFlags Do arguments)) =
              [Some (JSON_string (json_string (deref flagSet ''value'')))]) \<and>
         (''value'' \<in> set (actual flagSet) \<and> deref flagSet ''value'' = [] \<longrightarrow>
            payloads ''value'' (effects (addKVP_handler apiFlags Do arguments)) =
              [Some (JSON_string [])]) \<and>
         JSON_null \<noteq> JSON_string []"
  using assms(2,3)
  by (auto simp add: addKVP_handler_parsed[OF assms(1)] Let_def payloads_def payload_def
        variables_def addKVP_request_def)

theorem addKVP_value_payload_witness:
  "payloads ''value'' (effects (addKVP_handler [] Do_ok [''-repo=r'', ''-key=k''])) =
     [Some JSON_null] \<and>
   payloads ''value'' (effects (addKVP_handler [] Do_ok [''-repo=r'', ''-key=k'', ''-value=''])) =
     [Some (JSON_string [])]"
proof -
  from parsed_repo_key obtain f where
    "Parse (addKVP_flagSet []) [''-repo=r'', ''-key=k''] = Inr f"
    "deref f ''repo'' = ''r''" "''key'' \<in> set (actual f)" "''value'' \<notin> set (actual f)"
    by blast
  with addKVP_value_payload[of "[]" "[''-repo=r'', ''-key=k'']" f Do_ok]
  have unset: "payloads ''value'' (effects (addKVP_handler [] Do_ok [''-repo=r'', ''-key=k''])) =
     [Some JSON_null]"
    by simp
  from parsed_repo_key_empty_value obtain g where
    "Parse (addKVP_flagSet []) [''-repo=r'', ''-key=k'', ''-value=''] = Inr g"
    "deref g ''repo'' = ''r''" "''key'' \<in> set (actual g)" "''value'' \<in> set (actual g)"
    "deref g ''value'' = []"
    by blast
  with addKVP_value_payload[of "[]" "[''-repo=r'', ''-key=k'', ''-value='']" g Do_ok]
  have "payloads ''value''
          (effects (addKVP_handler [] Do_ok [''-repo=r'', ''-key=k'', ''-value=''])) =
        [Some (JSON_string [])]"
    by simp
  with unset show ?thesis by simp
qed

text \<open>
  C5, as stated: an empty key is rejected and no mutation is sent. The code accepts
  \<^verbatim>\<open>-key=\<close>: the request goes out with the empty key and the handler returns nil.
\<close>

theorem addKVP_empty_key_counterexample:
  "payloads ''key'' (effects (addKVP_handler [] Do_ok [''-repo=r'', ''-key=''])) =
     [Some (JSON_string [])] \<and>
   result (addKVP_handler [] Do_ok [''-repo=r'', ''-key='']) = Returned None"
  by code_simp

text \<open>
  C5, amended. The key is required in that \<^verbatim>\<open>-key\<close> has to be passed; it may be empty.
  Once it was passed and the repo is not empty, exactly one request is sent, whose variable
  \<^verbatim>\<open>key\<close> is the key as it was passed; for \<^verbatim>\<open>-key=\<close> that is the empty string, on the
  wire too. The handler returns what the transport returned, never a validation error of
  its own.
\<close>

theorem addKVP_key_as_passed:
  assumes "Parse (addKVP_flagSet apiFlags) arguments = Inr flagSet"
    and "deref flagSet ''repo'' \<noteq> []"
    and "''key'' \<in> set (actual flagSet)"
  shows "sent (effects (addKVP_handler apiFlags Do arguments)) =
           [addKVP_request (deref flagSet ''repo'') (deref flagSet ''key'')
              (if ''value'' \<in> set (actual flagSet) then Some (deref flagSet ''value'') else None)] \<and>
         variables ''key'' (effects (addKVP_handler apiFlags Do arguments)) =
           [Some (go_string (deref flagSet ''key''))] \<and>
         (deref flagSet ''key'' = [] \<longrightarrow>
            payloads ''key'' (effects (addKVP_handler apiFlags Do arguments)) =
              [Some (JSON_string [])]) \<and>
         result (addKVP_handler apiFlags Do arguments) =
           Returned (snd (Do (addKVP_request (deref flagSet ''repo'') (deref flagSet ''key'')
              (if ''value'' \<in> set (actual flagSet) then Some (deref flagSet ''value'')
               else None))))"
  using assms(2,3)
  by (auto simp add: addKVP_handler_parsed[OF assms(1)] Let_def payloads_def payload_def
        variables_def addKVP_request_def)

theorem addKVP_key_as_passed_witness:
  "payloads ''key'' (effects (addKVP_handler [] Do_ok [''-repo=r'', ''-key=''])) =
     [Some (JSON_string [])]"
proof -
  from parsed_repo_empty_key obtain f where
    "Parse (addKVP_flagSet []) [''-repo=r'', ''-key=''] = Inr f"
    "deref f ''repo'' = ''r''" "deref f ''key'' = []" "''key'' \<in> set (actual f)"
    by blast
  with addKVP_key_as_passed[of "[]" "[''-repo=r'', ''-key='']" f Do_ok]
  show ?thesis by simp
qed

text \<open>
  C6. For every invocation in which \<^verbatim>\<open>-repo\<close> is unset or empty, the handler returns the
  validation error \<^verbatim>\<open>error: repo is required\<close> and has no effect at all: no request is
  sent.
\<close>

theorem addKVP_repo_required:
  assumes "Parse (addKVP_flagSet apiFlags) arguments = Inr flagSet"
    and "''repo'' \<notin> set (actual flagSet) \<or> deref flagSet ''repo'' = []"
  shows "addKVP_handler apiFlags Do arguments =
           \<lparr>result = Returned (Some (errors_New ''error: repo is required'')), effects = []\<rparr> \<and>
         sent (effects (addKVP_handler apiFlags Do arguments)) = []"
proof -
  from assms(2) have "deref flagSet ''repo'' = []"
    using Parse_unset[OF assms(1), of "''repo''"] addKVP_defaults(1)[of apiFlags] by auto
  then show ?thesis
    by (simp add: addKVP_handler_parsed[OF assms(1)])
qed

theorem addKVP_repo_required_witness:
  "addKVP_handler [] Do_ok [''-key=k''] =
     \<lparr>result = Returned (Some (errors_New ''error: repo is required'')), effects = []\<rparr>"
proof -
  from parsed_key_only obtain f where
    "Parse (addKVP_flagSet []) [''-key=k''] = Inr f" "''repo'' \<notin> set (actual f)"
    by blast
  with addKVP_repo_required[of "[]" "[''-key=k'']" f Do_ok]
  show ?thesis by simp
qed

text \<open>
  C7. For every invocation in which \<^verbatim>\<open>-key\<close> was never passed, the handler returns a
  validation error and sends nothing, although the flag then holds its default, the empty
  string. What is tested is whether \<^verbatim>\<open>Visit\<close> reached the flag, not whether its value is
  empty: with a repo, a key that was passed gets the request sent, whatever its value.
\<close>

theorem addKVP_key_required:
  assumes "Parse (addKVP_flagSet apiFlags) arguments = Inr flagSet"
  shows "(''key'' \<notin> set (actual flagSet) \<longrightarrow>
            deref flagSet ''key'' = [] \<and>
            addKVP_handler apiFlags Do arguments =
              \<lparr>result = Returned (Some (errors_New
                  (if deref flagSet ''repo'' = [] then ''error: repo is required''
                   else ''error: key is required''))),
               effects = []\<rparr>) \<and>
         (''key'' \<in> set (actual flagSet) \<and> deref flagSet ''repo'' \<noteq> [] \<longrightarrow>
            sent (effects (addKVP_handler apiFlags Do arguments)) =
              [addKVP_request (deref flagSet ''repo'') (deref flagSet ''key'')
                 (if ''value'' \<in> set (actual flagSet) then Some (deref flagSet ''value'') else None)])"
proof -
  have "deref flagSet ''key'' = []" if "''key'' \<notin> set (actual flagSet)"
    using Parse_unset[OF assms that] addKVP_defaults(2)[of apiFlags] by simp
  then show ?thesis
    by (simp add: addKVP_handler_parsed[OF assms] Let_def)
qed

theorem addKVP_key_required_witness:
  "addKVP_handler [] Do_ok [''-repo=r''] =
     \<lparr>result = Returned (Some (errors_New ''error: key is required'')), effects = []\<rparr> \<and>
   sent (effects (addKVP_handler [] Do_ok [''-repo=r'', ''-key=''])) =
     [addKVP_request ''r'' [] None]"
proof -
  from parsed_repo_only obtain f where
    "Parse (addKVP_flagSet []) [''-repo=r''] = Inr f" "deref f ''repo'' = ''r''"
    "''key'' \<notin> set (actual f)"
    by blast
  with addKVP_key_required[of "[]" "[''-repo=r'']" f Do_ok]
  have missing: "addKVP_handler [] Do_ok [''-repo=r''] =
     \<lparr>result = Returned (Some (errors_New ''error: key is required'')), effects = []\<rparr>"
    by simp
  from parsed_repo_empty_key obtain g where
    "Parse (addKVP_flagSet []) [''-repo=r'', ''-key=''] = Inr g" "deref g ''repo'' = ''r''"
    "deref g ''key'' = []" "''key'' \<in> set (actual g)" "''value'' \<notin> set (actual g)"
    by blast
  with addKVP_key_required[of "[]" "[''-repo=r'', ''-key='']" g Do_ok]
  have "sent (effects (addKVP_handler [] Do_ok [''-repo=r'', ''-key=''])) =
     [addKVP_request ''r'' [] None]"
    by simp
  with missing show ?thesis by simp
qed

text \<open>
  C9. For every valid invocation whose request succeeds (\<^verbatim>\<open>Do\<close> returns \<^verbatim>\<open>ok\<close> and no
  error), the handler returns nil and prints one line: with \<^verbatim>\<open><nil>\<close> after the colon when
  \<^verbatim>\<open>-value\<close> was never passed, which is not the line of an empty value, and with the value
  after the colon when it was passed.
\<close>

theorem addKVP_confirmation:
  assumes "Parse (addKVP_flagSet apiFlags) arguments = Inr flagSet"
    and "deref flagSet ''repo'' \<noteq> []"
    and "''key'' \<in> set (actual flagSet)"
    and "valueFlag = (if ''value'' \<in> set (actual flagSet) then Some (deref flagSet ''value'')
                      else None)"
    and "Do (addKVP_request (deref flagSet ''repo'') (deref flagSet ''key'') valueFlag) =
           (True, None)"
  shows "result (addKVP_handler apiFlags Do arguments) = Returned None \<and>
         (''value'' \<notin> set (actual flagSet) \<longrightarrow>
            printed (effects (addKVP_handler apiFlags Do arguments)) =
              [''Key-value pair '' @ [CHR 0x27] @ deref flagSet ''key'' @ '':<nil>'' @
               [CHR 0x27] @ '' created.'' @ newline] \<and>
            printed (effects (addKVP_handler apiFlags Do arguments)) \<noteq>
              [''Key-value pair '' @ [CHR 0x27] @ deref flagSet ''key'' @ '':'' @
               [CHR 0x27] @ '' created.'' @ newline]) \<and>
         (''value'' \<in> set (actual flagSet) \<longrightarrow>
            printed (effects (addKVP_handler apiFlags Do arguments)) =
              [''Key-value pair '' @ [CHR 0x27] @ deref flagSet ''key'' @ '':'' @
               deref flagSet ''value'' @ [CHR 0x27] @ '' created.'' @ newline])"
proof (cases "''value'' \<in> set (actual flagSet)")
  case True
  with assms(2-5) show ?thesis
    by (simp add: addKVP_handler_parsed[OF assms(1)] Let_def)
next
  case False
  with assms(2-5) show ?thesis
    by (simp add: addKVP_handler_parsed[OF assms(1)] Let_def)
qed

theorem addKVP_confirmation_witness:
  "printed (effects (addKVP_handler [] Do_ok [''-repo=r'', ''-key=k''])) =
     [''Key-value pair '' @ [CHR 0x27] @ ''k:<nil>'' @ [CHR 0x27] @ '' created.'' @ newline] \<and>
   printed (effects (addKVP_handler [] Do_ok [''-repo=r'', ''-key=k'', ''-value=''])) =
     [''Key-value pair '' @ [CHR 0x27] @ ''k:'' @ [CHR 0x27] @ '' created.'' @ newline]"
proof -
  from parsed_repo_key obtain f where
    "Parse (addKVP_flagSet []) [''-repo=r'', ''-key=k''] = Inr f"
    "deref f ''repo'' = ''r''" "deref f ''key'' = ''k''" "''key'' \<in> set (actual f)"
    "''value'' \<notin> set (actual f)"
    by blast
  with addKVP_confirmation[of "[]" "[''-repo=r'', ''-key=k'']" f None Do_ok]
  have unset: "printed (effects (addKVP_handler [] Do_ok [''-repo=r'', ''-key=k''])) =
     [''Key-value pair '' @ [CHR 0x27] @ ''k:<nil>'' @ [CHR 0x27] @ '' created.'' @ newline]"
    by (simp add: Do_ok_def)
  from parsed_repo_key_empty_value obtain g where
    "Parse (addKVP_flagSet []) [''-repo=r'', ''-key=k'', ''-value=''] = Inr g"
    "deref g ''repo'' = ''r''" "deref g ''key'' = ''k''" "''key'' \<in> set (actual g)"
    "''value'' \<in> set (actual g)" "deref g ''value'' = []"
    by blast
  with addKVP_confirmation[of "[]" "[''-repo=r'', ''-key=k'', ''-value='']" g "Some []" Do_ok]
  have "printed (effects (addKVP_handler [] Do_ok [''-repo=r'', ''-key=k'', ''-value=''])) =
     [''Key-value pair '' @ [CHR 0x27] @ ''k:'' @ [CHR 0x27] @ '' created.'' @ newline]"
    by (simp add: Do_ok_def)
  with unset show ?thesis by simp
qed

section \<open>\<^verbatim>\<open>snapshot databases\<close>: the handler after \<^verbatim>\<open>Parse\<close>\<close>

lemma Parse_nonflag:
  assumes "length s < 2 \<or> s ! 0 \<noteq> CHR ''-''"
  shows "Parse f (s # rest) = Inr (f\<lparr>args := s # rest\<rparr>)"
proof -
  from assms have "parseOne (f\<lparr>args := s # rest\<rparr>) = (False, None, f\<lparr>args := s # rest\<rparr>)"
    by (simp add: parseOne_def)
  then show ?thesis
    by (simp add: Parse_def Parse_loop.simps[of "f\<lparr>args := s # rest\<rparr>"])
qed

lemma Parse_no_arguments: "Parse f [] = Inr (f\<lparr>args := []\<rparr>)"
proof -
  have "parseOne (f\<lparr>args := []\<rparr>) = (False, None, f\<lparr>args := []\<rparr>)"
    by (simp add: parseOne_def)
  then show ?thesis
    by (simp add: Parse_def Parse_loop.simps[of "f\<lparr>args := []\<rparr>"])
qed

lemma databases_default: "deref (databases_flagSet\<lparr>args := a\<rparr>) ''targets'' = ''auto''"
  by (simp add: deref_def lookup_def databases_flagSet_def stringFlag_def)

lemma databases_handler_parsed:
  assumes "Parse databases_flagSet arguments = Inr flagSet"
  shows "databases_handler env arguments =
     (case builder_switch (pgdump_Command env) (if length arguments > 0 then arguments ! 0 else []) of
        Inl err \<Rightarrow> \<lparr>result = Returned (Some err), effects = []\<rparr>
      | Inr (targetKey, commandBuilder) \<Rightarrow>
          dump_commands env commandBuilder
            (if deref flagSet ''targets'' \<noteq> ''auto'' then deref flagSet ''targets'' else targetKey))"
  by (simp add: databases_handler_def assms Let_def split: sum.splits prod.splits)

lemma builder_switch_unknown:
  assumes "builder \<noteq> ''pg_dump''" "builder \<noteq> []" "builder \<noteq> ''docker''" "builder \<noteq> ''kubectl''"
  shows "builder_switch Command builder =
           Inl (errors_Newf ''unknown or invalid template type %q'' [builder])"
  using assms by (simp add: builder_switch_def)

lemma builder_switch_known:
  "builder_switch Command ''pg_dump'' = Inr (''local'', commandBuilder_pg_dump Command)"
  "builder_switch Command [] = Inr (''local'', commandBuilder_pg_dump Command)"
  "builder_switch Command ''docker'' = Inr (''docker'', commandBuilder_docker Command)"
  "builder_switch Command ''kubectl'' = Inr (''k8s'', commandBuilder_kubectl Command)"
  by (simp_all add: builder_switch_def)

section \<open>\<^verbatim>\<open>snapshot databases\<close>: the claims\<close>

text \<open>
  C2. For every invocation whose targets selector is \<^verbatim>\<open>auto\<close> after \<^verbatim>\<open>Parse\<close>, the handler
  goes on with the target key that belongs to the style: \<^verbatim>\<open>local\<close> for \<^verbatim>\<open>pg_dump\<close> and for
  the empty style, \<^verbatim>\<open>docker\<close> for \<^verbatim>\<open>docker\<close>, \<^verbatim>\<open>k8s\<close> for \<^verbatim>\<open>kubectl\<close>, and with that key the
  predefined targets of that name are used.
\<close>

theorem databases_auto_targets:
  assumes "Parse databases_flagSet arguments = Inr flagSet"
    and "deref flagSet ''targets'' = ''auto''"
    and "builder = (if length arguments > 0 then arguments ! 0 else [])"
  shows "(builder = ''pg_dump'' \<or> builder = [] \<longrightarrow>
            databases_handler env arguments =
              dump_commands env (commandBuilder_pg_dump (pgdump_Command env)) ''local'') \<and>
         (builder = ''docker'' \<longrightarrow>
            databases_handler env arguments =
              dump_commands env (commandBuilder_docker (pgdump_Command env)) ''docker'') \<and>
         (builder = ''kubectl'' \<longrightarrow>
            databases_handler env arguments =
              dump_commands env (commandBuilder_kubectl (pgdump_Command env)) ''k8s'') \<and>
         fst (load_targets env ''local'') =
           [WriteLine (output_Emojif EmojiInfo ''Using predefined targets for %s environments''
              [''local''])] \<and>
         fst (load_targets env ''docker'') =
           [WriteLine (output_Emojif EmojiInfo ''Using predefined targets for %s environments''
              [''docker''])] \<and>
         fst (load_targets env ''k8s'') =
           [WriteLine (output_Emojif EmojiInfo ''Using predefined targets for %s environments''
              [''k8s''])]"
proof -
  have "databases_handler env arguments =
     (case builder_switch (pgdump_Command env) builder of
        Inl err \<Rightarrow> \<lparr>result = Returned (Some err), effects = []\<rparr>
      | Inr (targetKey, commandBuilder) \<Rightarrow> dump_commands env commandBuilder targetKey)"
    unfolding databases_handler_parsed[OF assms(1)] assms(2,3)
    by (simp split: sum.splits prod.splits)
  then show ?thesis
    by (auto simp: builder_switch_known load_targets_def predefinedDatabaseDumpTargets_def)
qed

theorem databases_auto_targets_witness:
  "databases_handler (example_environment None) [''docker''] =
     dump_commands (example_environment None)
       (commandBuilder_docker (pgdump_Command (example_environment None))) ''docker''"
proof -
  have "Parse databases_flagSet [''docker''] = Inr (databases_flagSet\<lparr>args := [''docker'']\<rparr>)"
    by (rule Parse_nonflag) simp
  from databases_auto_targets[OF this databases_default, of "''docker''" "example_environment None"]
  show ?thesis by simp
qed

text \<open>
  C3. For every style token other than \<^verbatim>\<open>pg_dump\<close>, the empty one, \<^verbatim>\<open>docker\<close> and
  \<^verbatim>\<open>kubectl\<close>, the handler has no effect at all (no output, no file opened, no directory
  made) and consults nothing of its environment; once \<^verbatim>\<open>Parse\<close> has returned, it returns the
  error \<^verbatim>\<open>unknown or invalid template type\<close> for that token, and \<^verbatim>\<open>Parse\<close> does return
  whenever the token is not a flag.
\<close>

theorem databases_unknown_style:
  assumes "builder = (if length arguments > 0 then arguments ! 0 else [])"
    and "builder \<noteq> ''pg_dump''" and "builder \<noteq> []" and "builder \<noteq> ''docker''"
    and "builder \<noteq> ''kubectl''"
  shows "effects (databases_handler env arguments) = [] \<and>
         file_io (effects (databases_handler env arguments)) = [] \<and>
         databases_handler env arguments = databases_handler env' arguments \<and>
         (Parse databases_flagSet arguments = Inr flagSet \<longrightarrow>
            result (databases_handler env arguments) =
              Returned (Some (errors_Newf ''unknown or invalid template type %q'' [builder]))) \<and>
         (length builder < 2 \<or> builder ! 0 \<noteq> CHR ''-'' \<longrightarrow>
            result (databases_handler env arguments) =
              Returned (Some (errors_Newf ''unknown or invalid template type %q'' [builder])))"
proof -
  from assms(1,3) obtain rest where a: "arguments = builder # rest"
    by (cases arguments) (auto split: if_splits)
  have h: "databases_handler e arguments =
     (case Parse databases_flagSet arguments of
        Inl (os_Exit code) \<Rightarrow> \<lparr>result = Exited code, effects = []\<rparr>
      | Inr flagSet \<Rightarrow>
          \<lparr>result = Returned (Some (errors_Newf ''unknown or invalid template type %q'' [builder])),
           effects = []\<rparr>)" for e
  proof (cases "Parse databases_flagSet arguments")
    case (Inl x)
    then show ?thesis
      by (cases x) (simp add: databases_handler_def)
  next
    case (Inr f)
    show ?thesis
      unfolding databases_handler_parsed[OF Inr] Inr
      by (simp add: a builder_switch_unknown[OF assms(2-5)])
  qed
  have "Parse databases_flagSet arguments = Inr (databases_flagSet\<lparr>args := arguments\<rparr>)"
    if "length builder < 2 \<or> builder ! 0 \<noteq> CHR ''-''"
    unfolding a using that by (rule Parse_nonflag)
  then show ?thesis
    unfolding h by (auto split: sum.splits exit.splits)
qed

theorem databases_unknown_style_witness:
  "databases_handler (example_environment None) [''frobnicate''] =
     \<lparr>result = Returned (Some (errors_Newf ''unknown or invalid template type %q''
         [''frobnicate''])),
      effects = []\<rparr>"
proof -
  have "effects (databases_handler (example_environment None) [''frobnicate'']) = [] \<and>
        result (databases_handler (example_environment None) [''frobnicate'']) =
          Returned (Some (errors_Newf ''unknown or invalid template type %q'' [''frobnicate'']))"
    using databases_unknown_style[of "''frobnicate''" "[''frobnicate'']" "example_environment None"
        "example_environment None"]
    by simp
  then show ?thesis
    by (cases "databases_handler (example_environment None) [''frobnicate'']") simp
qed

lemma databases_handler_style:
  assumes "length s < 2 \<or> s ! 0 \<noteq> CHR ''-''"
  shows "databases_handler env (s # rest) =
     (case builder_switch (pgdump_Command env) s of
        Inl err \<Rightarrow> \<lparr>result = Returned (Some err), effects = []\<rparr>
      | Inr (targetKey, commandBuilder) \<Rightarrow> dump_commands env commandBuilder targetKey)"
  unfolding databases_handler_parsed[OF Parse_nonflag[OF assms]] databases_default
  by (simp split: sum.splits prod.splits)

lemma load_targets_no_mkdir: "Make_dir d \<notin> set (fst (load_targets env targetKey))"
  by (auto simp: load_targets_def Let_def split: option.splits sum.splits)

lemma load_targets_mkdir [simp]:
  "load_targets (env\<lparr>os_MkdirAll := m\<rparr>) targetKey = load_targets env targetKey"
  by (simp add: load_targets_def Let_def split: option.splits sum.splits)

lemma dump_commands_mkdir:
  "dump_commands (env\<lparr>os_MkdirAll := m\<rparr>) commandBuilder targetKey =
     dump_commands env commandBuilder targetKey"
  by (simp add: dump_commands_def Let_def split: prod.splits sum.splits)

lemma dump_commands_returned:
  "result (dump_commands env commandBuilder targetKey) = Returned None \<longleftrightarrow>
     Make_dir (srcSnapshotDir env) \<in> set (effects (dump_commands env commandBuilder targetKey))"
  using load_targets_no_mkdir[of "srcSnapshotDir env" env targetKey]
  by (auto simp: dump_commands_def Let_def split: prod.splits sum.splits)

text \<open>
  C4, as stated: a failure of the directory creation is surfaced to the user. With
  \<^verbatim>\<open>os.MkdirAll\<close> failing, the handler makes the attempt, returns nil and shows exactly what
  it shows when the creation succeeds.
\<close>

theorem databases_mkdir_failure_counterexample:
  "databases_handler (example_environment (Some (external ''permission denied''))) [''docker''] =
     databases_handler (example_environment None) [''docker''] \<and>
   result (databases_handler (example_environment (Some (external ''permission denied'')))
     [''docker'']) = Returned None \<and>
   file_io (effects (databases_handler (example_environment (Some (external ''permission denied'')))
     [''docker''])) = [Make_dir ''src-snapshot'']"
  by (simp add: databases_handler_style builder_switch_known dump_commands_def load_targets_def
        predefinedDatabaseDumpTargets_def example_environment_def BuildCommands_spec_def
        commandBuilder_docker_def Let_def)

text \<open>
  C4, amended. The handler calls \<^verbatim>\<open>os.MkdirAll\<close> on the output directory exactly when the
  commands were built, that is, when it returns nil, and drops what the call returns: its
  outcome (result and effects) is the same whatever \<^verbatim>\<open>os.MkdirAll\<close> returns, so a failure
  is not fatal and is not reported.
\<close>

theorem databases_mkdir_ignored:
  "databases_handler (env\<lparr>os_MkdirAll := m\<rparr>) arguments = databases_handler env arguments \<and>
   (result (databases_handler env arguments) = Returned None \<longleftrightarrow>
      Make_dir (srcSnapshotDir env) \<in> set (effects (databases_handler env arguments)))"
proof (cases "Parse databases_flagSet arguments")
  case (Inl x)
  then show ?thesis
    by (cases x) (simp add: databases_handler_def)
next
  case (Inr f)
  show ?thesis
    unfolding databases_handler_parsed[OF Inr]
    by (auto simp: dump_commands_mkdir dump_commands_returned split: sum.splits prod.splits)
qed

theorem databases_mkdir_ignored_witness:
  "databases_handler (example_environment (Some (external ''permission denied''))) [''kubectl''] =
     databases_handler (example_environment None) [''kubectl''] \<and>
   Make_dir ''src-snapshot'' \<in> set (effects (databases_handler (example_environment None)
     [''kubectl'']))"
proof -
  have e: "example_environment (Some (external ''permission denied'')) =
        (example_environment None)\<lparr>os_MkdirAll := \<lambda>dir. Some (external ''permission denied'')\<rparr>"
    by (simp add: example_environment_def)
  have r: "result (databases_handler (example_environment None) [''kubectl'']) = Returned None"
    by code_simp
  have d: "srcSnapshotDir (example_environment None) = ''src-snapshot''"
    by (simp add: example_environment_def)
  from databases_mkdir_ignored[where env = "example_environment None"
      and m = "\<lambda>dir. Some (external ''permission denied'')" and arguments = "[''kubectl'']"] r
  show ?thesis
    unfolding e d by simp
qed

lemma rendered_styles:
  "rendered Command ''pg_dump'' t =
     Some (if Target t \<noteq> [] then Command t @ '' --host='' @ Target t else Command t)"
  "rendered Command [] t =
     Some (if Target t \<noteq> [] then Command t @ '' --host='' @ Target t else Command t)"
  "rendered Command ''docker'' t =
     Some (''docker exec -it '' @ Target t @ '' sh -c '' @ [CHR 0x27] @ Command t @ [CHR 0x27])"
  "rendered Command ''kubectl'' t =
     Some (''kubectl exec -it '' @ Target t @ '' -- bash -c '' @ [CHR 0x27] @ Command t @
           [CHR 0x27])"
  by (simp_all add: rendered_def builder_switch_known commandBuilder_pg_dump_def
        commandBuilder_docker_def commandBuilder_kubectl_def Let_def)

lemma has_parameter_wrapped:
  "has_parameter name val text \<Longrightarrow> has_parameter name val (before @ text @ after)"
  unfolding has_parameter_def
  by (meson sublist_appendI sublist_order.order_trans)

lemma connection_parameters_wrapped:
  "connection_parameters t text \<Longrightarrow> connection_parameters t (before @ text @ after)"
  by (simp add: connection_parameters_def has_parameter_wrapped)

lemma connection_parameters_spec: "connection_parameters t (pgdump_Command_spec t)"
proof -
  have "has_parameter ''dbname'' (DBName t) (pgdump_Command_spec t)"
    unfolding has_parameter_def sublist_def
    by (rule exI[of _ "''pg_dump ''"],
        rule exI[of _ "'' user='' @ Username t @ '' password='' @ Password t"])
       (simp add: pgdump_Command_spec_def)
  moreover have "has_parameter ''user'' (Username t) (pgdump_Command_spec t)"
    unfolding has_parameter_def sublist_def
    by (rule exI[of _ "''pg_dump dbname='' @ DBName t @ '' ''"],
        rule exI[of _ "'' password='' @ Password t"])
       (simp add: pgdump_Command_spec_def)
  moreover have "has_parameter ''password'' (Password t) (pgdump_Command_spec t)"
    unfolding has_parameter_def sublist_def
    by (rule exI[of _ "''pg_dump dbname='' @ DBName t @ '' user='' @ Username t @ '' ''"],
        rule exI[of _ "[]"])
       (simp add: pgdump_Command_spec_def)
  ultimately show ?thesis
    by (simp add: connection_parameters_def)
qed

text \<open>
  C8. For every target and every style, the text that the command builder selected for
  the style renders is the text of \<^verbatim>\<open>pgdump.Command\<close> in the wrapper of that style:
  \<^verbatim>\<open>--host=\<close> appended when the target is not empty for \<^verbatim>\<open>pg_dump\<close> and the empty style,
  \<^verbatim>\<open>docker exec\<close> around it for \<^verbatim>\<open>docker\<close>, \<^verbatim>\<open>kubectl exec\<close> around it for \<^verbatim>\<open>kubectl\<close>.
  With \<^verbatim>\<open>pgdump.Command\<close> as the spec describes it, the rendered text of every style has
  the database name, the username and the password of the target as connection parameters.
  The style \<^verbatim>\<open>kubectl\<close> goes with the preset \<^verbatim>\<open>k8s\<close>, whose primary command is
  \<^verbatim>\<open>kubectl exec -it statefulset/pgsql -- bash -c '...'\<close> around the \<^verbatim>\<open>pg_dump\<close> invocation
  with \<^verbatim>\<open>dbname=sg\<close>, \<^verbatim>\<open>user=sg\<close> and \<^verbatim>\<open>password=sg\<close>.
\<close>

theorem commandBuilder_renders:
  "(Target t \<noteq> [] \<longrightarrow>
      rendered Command ''pg_dump'' t = Some (Command t @ '' --host='' @ Target t) \<and>
      rendered Command [] t = Some (Command t @ '' --host='' @ Target t)) \<and>
   (Target t = [] \<longrightarrow>
      rendered Command ''pg_dump'' t = Some (Command t) \<and>
      rendered Command [] t = Some (Command t)) \<and>
   rendered Command ''docker'' t =
     Some (''docker exec -it '' @ Target t @ '' sh -c '' @ [CHR 0x27] @ Command t @ [CHR 0x27]) \<and>
   rendered Command ''kubectl'' t =
     Some (''kubectl exec -it '' @ Target t @ '' -- bash -c '' @ [CHR 0x27] @ Command t @
           [CHR 0x27]) \<and>
   (case rendered pgdump_Command_spec ''pg_dump'' t of
      Some text \<Rightarrow> connection_parameters t text | None \<Rightarrow> False) \<and>
   (case rendered pgdump_Command_spec [] t of
      Some text \<Rightarrow> connection_parameters t text | None \<Rightarrow> False) \<and>
   (case rendered pgdump_Command_spec ''docker'' t of
      Some text \<Rightarrow> connection_parameters t text | None \<Rightarrow> False) \<and>
   (case rendered pgdump_Command_spec ''kubectl'' t of
      Some text \<Rightarrow> connection_parameters t text | None \<Rightarrow> False) \<and>
   target_key Command ''kubectl'' = Some ''k8s'' \<and>
   map_option Primary (predefinedDatabaseDumpTargets ''k8s'') =
     Some \<lparr>Target = ''statefulset/pgsql'', DBName = ''sg'', Username = ''sg'',
           Password = ''sg''\<rparr> \<and>
   rendered pgdump_Command_spec ''kubectl''
       \<lparr>Target = ''statefulset/pgsql'', DBName = ''sg'', Username = ''sg'', Password = ''sg''\<rparr> =
     Some (''kubectl exec -it statefulset/pgsql -- bash -c '' @ [CHR 0x27] @
           ''pg_dump dbname=sg user=sg password=sg'' @ [CHR 0x27])"
proof -
  note spec = connection_parameters_spec[of t]
  have "connection_parameters t (pgdump_Command_spec t @ '' --host='' @ Target t)"
    using connection_parameters_wrapped[OF spec, of "[]"] by simp
  moreover have "connection_parameters t
      (''docker exec -it '' @ Target t @ '' sh -c '' @ [CHR 0x27] @ pgdump_Command_spec t @
       [CHR 0x27])"
    using connection_parameters_wrapped[OF spec,
        of "''docker exec -it '' @ Target t @ '' sh -c '' @ [CHR 0x27]"]
    by simp
  moreover have "connection_parameters t
      (''kubectl exec -it '' @ Target t @ '' -- bash -c '' @ [CHR 0x27] @ pgdump_Command_spec t @
       [CHR 0x27])"
    using connection_parameters_wrapped[OF spec,
        of "''kubectl exec -it '' @ Target t @ '' -- bash -c '' @ [CHR 0x27]"]
    by simp
  moreover have "rendered pgdump_Command_spec ''kubectl''
       \<lparr>Target = ''statefulset/pgsql'', DBName = ''sg'', Username = ''sg'', Password = ''sg''\<rparr> =
     Some (''kubectl exec -it statefulset/pgsql -- bash -c '' @ [CHR 0x27] @
           ''pg_dump dbname=sg user=sg password=sg'' @ [CHR 0x27])"
    by (simp add: rendered_styles pgdump_Command_spec_def)
  ultimately show ?thesis
    using spec
    by (simp add: rendered_styles builder_switch_known target_key_def
          predefinedDatabaseDumpTargets_def)
qed

theorem commandBuilder_renders_witness:
  "rendered pgdump_Command_spec ''pg_dump''
       \<lparr>Target = ''db.example'', DBName = ''sg'', Username = ''sg'', Password = ''secret''\<rparr> =
     Some ''pg_dump dbname=sg user=sg password=secret --host=db.example'' \<and>
   rendered pgdump_Command_spec ''pg_dump''
       \<lparr>Target = [], DBName = ''sg'', Username = ''sg'', Password = ''secret''\<rparr> =
     Some ''pg_dump dbname=sg user=sg password=secret''"
proof -
  have "Target \<lparr>Target = ''db.example'', DBName = ''sg'', Username = ''sg'',
                 Password = ''secret''\<rparr> \<noteq> []"
    by simp
  with commandBuilder_renders[where Command = pgdump_Command_spec
      and t = "\<lparr>Target = ''db.example'', DBName = ''sg'', Username = ''sg'', Password = ''secret''\<rparr>"]
  have host: "rendered pgdump_Command_spec ''pg_dump''
       \<lparr>Target = ''db.example'', DBName = ''sg'', Username = ''sg'', Password = ''secret''\<rparr> =
     Some (pgdump_Command_spec
             \<lparr>Target = ''db.example'', DBName = ''sg'', Username = ''sg'', Password = ''secret''\<rparr> @
           '' --host='' @ ''db.example'')"
    by simp
  have "Target \<lparr>Target = [], DBName = ''sg'', Username = ''sg'', Password = ''secret''\<rparr> = []"
    by simp
  with commandBuilder_renders[where Command = pgdump_Command_spec
      and t = "\<lparr>Target = [], DBName = ''sg'', Username = ''sg'', Password = ''secret''\<rparr>"]
  have "rendered pgdump_Command_spec ''pg_dump''
       \<lparr>Target = [], DBName = ''sg'', Username = ''sg'', Password = ''secret''\<rparr> =
     Some (pgdump_Command_spec
             \<lparr>Target = [], DBName = ''sg'', Username = ''sg'', Password = ''secret''\<rparr>)"
    by simp
  with host show ?thesis
    by (simp add: pgdump_Command_spec_def)
qed

text \<open>
  C10. The style is the first element of the arguments as they were given, not what
  \<^verbatim>\<open>Parse\<close> leaves. When the first argument is a flag token that \<^verbatim>\<open>Parse\<close> accepts, the
  handler returns the error \<^verbatim>\<open>unknown or invalid template type\<close> for that token and does
  nothing else. When the first argument is not a flag token, \<^verbatim>\<open>Parse\<close> stops at once: no
  flag is set, the targets selector stays \<^verbatim>\<open>auto\<close>, what follows the style is left in the
  arguments, and the handler does what it does for the style alone.
\<close>

theorem databases_style_is_first_argument:
  "(2 \<le> length s \<and> s ! 0 = CHR ''-'' \<and> Parse databases_flagSet (s # rest) = Inr flagSet \<longrightarrow>
      databases_handler env (s # rest) =
        \<lparr>result = Returned (Some (errors_Newf ''unknown or invalid template type %q'' [s])),
         effects = []\<rparr>) \<and>
   (length s < 2 \<or> s ! 0 \<noteq> CHR ''-'' \<longrightarrow>
      Parse databases_flagSet (s # rest) = Inr (databases_flagSet\<lparr>args := s # rest\<rparr>) \<and>
      actual (databases_flagSet\<lparr>args := s # rest\<rparr>) = [] \<and>
      deref (databases_flagSet\<lparr>args := s # rest\<rparr>) ''targets'' = ''auto'' \<and>
      databases_handler env (s # rest) = databases_handler env [s])"
proof (intro conjI impI)
  assume a: "2 \<le> length s \<and> s ! 0 = CHR ''-'' \<and> Parse databases_flagSet (s # rest) = Inr flagSet"
  then obtain cs where "s = CHR ''-'' # cs"
    by (cases s) auto
  then have "builder_switch (pgdump_Command env) s =
      Inl (errors_Newf ''unknown or invalid template type %q'' [s])"
    by (intro builder_switch_unknown) auto
  with a show "databases_handler env (s # rest) =
        \<lparr>result = Returned (Some (errors_Newf ''unknown or invalid template type %q'' [s])),
         effects = []\<rparr>"
    by (simp add: databases_handler_parsed[of "s # rest" flagSet])
next
  assume n: "length s < 2 \<or> s ! 0 \<noteq> CHR ''-''"
  then show "Parse databases_flagSet (s # rest) = Inr (databases_flagSet\<lparr>args := s # rest\<rparr>)"
    by (rule Parse_nonflag)
  show "actual (databases_flagSet\<lparr>args := s # rest\<rparr>) = []"
    by (simp add: databases_flagSet_def)
  show "deref (databases_flagSet\<lparr>args := s # rest\<rparr>) ''targets'' = ''auto''"
    by (rule databases_default)
  show "databases_handler env (s # rest) = databases_handler env [s]"
    unfolding databases_handler_style[OF n] ..
qed

lemma parsed_targets_first:
  "\<exists>flagSet. Parse databases_flagSet [''-targets=k8s'', ''kubectl''] = Inr flagSet \<and>
     deref flagSet ''targets'' = ''k8s'' \<and> args flagSet = [''kubectl'']"
proof -
  have "case Parse databases_flagSet [''-targets=k8s'', ''kubectl''] of
          Inl e \<Rightarrow> False
        | Inr flagSet \<Rightarrow> deref flagSet ''targets'' = ''k8s'' \<and> args flagSet = [''kubectl'']"
    by code_simp
  then show ?thesis
    by (cases "Parse databases_flagSet [''-targets=k8s'', ''kubectl'']") auto
qed

theorem databases_style_is_first_argument_witness:
  "databases_handler (example_environment None) [''-targets=k8s'', ''kubectl''] =
     \<lparr>result = Returned (Some (errors_Newf ''unknown or invalid template type %q''
         [''-targets=k8s''])),
      effects = []\<rparr> \<and>
   databases_handler (example_environment None) [''kubectl'', ''-targets=docker''] = databases_handler (example_environment None) [''kubectl'']"
proof -
  from parsed_targets_first obtain f where
    "Parse databases_flagSet [''-targets=k8s'', ''kubectl''] = Inr f"
    by blast
  with databases_style_is_first_argument[of "''-targets=k8s''" "[''kubectl'']" f "example_environment None"]
  have "databases_handler (example_environment None) [''-targets=k8s'', ''kubectl''] =
     \<lparr>result = Returned (Some (errors_Newf ''unknown or invalid template type %q''
         [''-targets=k8s''])),
      effects = []\<rparr>"
    by simp
  moreover from databases_style_is_first_argument[of "''kubectl''" "[''-targets=docker'']" f "example_environment None"]
  have "databases_handler (example_environment None) [''kubectl'', ''-targets=docker''] = databases_handler (example_environment None) [''kubectl'']"
    by simp
  ultimately show ?thesis by simp
qed

end
